theory Spec2Isabelle
  imports Main
begin

section \<open>The calls of take_screenshot.py to the browser-automation library\<close>

text \<open>
  The script is one coroutine, \<open>run\<close>, that awaits a fixed sequence of calls of the
  Playwright library, with one branch. The library is not part of the repository, so it
  is the environment of the model: every awaited call either returns a value or raises,
  and the environment decides which. What the script itself does is the sequence of calls
  it issues, with their arguments, and what it does with each outcome.
\<close>

type_synonym handle = nat
  \<comment> \<open>an element handle, as \<open>query_selector\<close> returns it\<close>

datatype error = TimeoutError | Error string
  \<comment> \<open>the two exception classes of the library: a timeout, and any other error with its message\<close>

datatype call =
    PlaywrightStart
    \<comment> \<open>entering \<open>async with async_playwright() as p\<close>\<close>
  | Launch bool
    \<comment> \<open>\<open>p.chromium.launch(headless=...)\<close>\<close>
  | NewPage
    \<comment> \<open>\<open>browser.new_page()\<close>\<close>
  | Goto string
    \<comment> \<open>\<open>page.goto(url)\<close>\<close>
  | WaitForSelector string nat
    \<comment> \<open>\<open>page.wait_for_selector(selector, timeout=ms)\<close>\<close>
  | QuerySelector string
    \<comment> \<open>\<open>page.query_selector(selector)\<close>\<close>
  | Fill string string
    \<comment> \<open>\<open>page.fill(selector, value)\<close>\<close>
  | Click handle
    \<comment> \<open>\<open>handle.click()\<close>\<close>
  | WaitForTimeout nat
    \<comment> \<open>\<open>page.wait_for_timeout(ms)\<close>\<close>
  | Screenshot string "bool option"
    \<comment> \<open>\<open>page.screenshot(path=..., full_page=...)\<close>; \<open>None\<close> is the keyword left out\<close>
  | Close
    \<comment> \<open>\<open>browser.close()\<close>\<close>
  | PlaywrightStop
    \<comment> \<open>leaving the \<open>async with\<close> block\<close>

datatype response = Value "handle option" | Raise error
  \<comment> \<open>what an awaited call does: it returns (Python's \<open>None\<close>, or a handle), or it raises\<close>

type_synonym trace = "(call \<times> response) list"
  \<comment> \<open>the calls issued so far, oldest first, each with its outcome\<close>

type_synonym env = "call list \<Rightarrow> call \<Rightarrow> response"
  \<comment> \<open>the library, the browser and the page served: the outcome of a call, given the calls before it\<close>

type_synonym prog = "env \<Rightarrow> trace \<Rightarrow> (error + handle option) \<times> trace"
  \<comment> \<open>a piece of the coroutine: it extends the trace and returns a value or an exception\<close>

subsection \<open>The literal constants of the script\<close>

definition backslash :: char where
  "backslash = CHR 0x5C"

definition url :: string where
  "url = ''http://localhost:3001''"

definition dashboard_marker :: string where
  "dashboard_marker = ''text=Admin Dashboard''"

definition login_button :: string where
  "login_button = ''button:has-text('Access Dashboard')''"

definition admin_id_input :: string where
  "admin_id_input = ''input[placeholder='Admin ID']''"

definition password_input :: string where
  "password_input = ''input[placeholder='Password']''"

definition auth_marker :: string where
  "auth_marker = ''text=Total Requests''"

definition screenshot_path :: string where
  "screenshot_path =
     ''C:'' @ backslash # ''Users'' @ backslash # ''Sazid'' @ backslash # ''.gemini''
     @ backslash # ''antigravity'' @ backslash # ''brain''
     @ backslash # ''41001d6e-5fca-4311-9d29-e0a7cb00349e''
     @ backslash # ''manual_screenshot.png''"

subsection \<open>Awaiting, sequencing and the scoped block\<close>

definition await :: "call \<Rightarrow> prog" where
  \<comment> \<open>issue the call, given the calls before it, and record it with its outcome\<close>
  "await c env tr =
     (case env (map fst tr) c of
        Raise e \<Rightarrow> (Inl e, tr @ [(c, Raise e)])
      | Value v \<Rightarrow> (Inr v, tr @ [(c, Value v)]))"

definition seq :: "prog \<Rightarrow> (handle option \<Rightarrow> prog) \<Rightarrow> prog" where
  \<comment> \<open>one statement after another: an exception of the first skips the rest\<close>
  "seq m f env tr =
     (case m env tr of
        (Inl e, tr') \<Rightarrow> (Inl e, tr')
      | (Inr v, tr') \<Rightarrow> f v env tr')"

definition skip :: prog where
  "skip env tr = (Inr None, tr)"

definition async_with :: "call \<Rightarrow> call \<Rightarrow> prog \<Rightarrow> prog" where
  \<comment> \<open>Python's \<open>async with\<close>: when entering raises, nothing else runs; otherwise the
      exit runs after the block, however the block ends. Playwright's exit returns
      \<open>None\<close>, so it never swallows an exception of the block; an exception of the
      exit itself replaces the block's outcome.\<close>
  "async_with enter exit block env tr =
     (case await enter env tr of
        (Inl e, tr1) \<Rightarrow> (Inl e, tr1)
      | (Inr _, tr1) \<Rightarrow>
          (case block env tr1 of
             (res, tr2) \<Rightarrow>
               (case await exit env tr2 of
                  (Inl e, tr3) \<Rightarrow> (Inl e, tr3)
                | (Inr _, tr3) \<Rightarrow> (res, tr3))))"

subsection \<open>The coroutine \<open>run\<close> and the top level\<close>

definition login_if_needed :: "handle option \<Rightarrow> prog" where
  \<comment> \<open>\<open>if login_btn:\<close> with its four statements; a handle is true, \<open>None\<close> is false\<close>
  "login_if_needed login_btn =
     (case login_btn of
        None \<Rightarrow> skip
      | Some h \<Rightarrow>
          seq (await (Fill admin_id_input ''admin1'')) (\<lambda>_.
          seq (await (Fill password_input ''password123'')) (\<lambda>_.
          seq (await (Click h)) (\<lambda>_.
          await (WaitForSelector auth_marker 10000)))))"

definition block :: prog where
  \<comment> \<open>the statements inside the \<open>async with\<close>\<close>
  "block =
     seq (await (Launch True)) (\<lambda>_.
     seq (await NewPage) (\<lambda>_.
     seq (await (Goto url)) (\<lambda>_.
     seq (await (WaitForSelector dashboard_marker 10000)) (\<lambda>_.
     seq (await (QuerySelector login_button)) (\<lambda>login_btn.
     seq (login_if_needed login_btn) (\<lambda>_.
     seq (await (WaitForTimeout 2000)) (\<lambda>_.
     seq (await (Screenshot screenshot_path None)) (\<lambda>_.
     await Close))))))))"

definition run :: "env \<Rightarrow> (error + handle option) \<times> trace" where
  \<comment> \<open>the coroutine starts with no call issued; it has no \<open>return\<close> statement, so
      after the \<open>async with\<close> it returns \<open>None\<close>\<close>
  "run env = seq (async_with PlaywrightStart PlaywrightStop block) (\<lambda>_. skip) env []"

definition result :: "env \<Rightarrow> error + handle option" where
  "result env = fst (run env)"

definition trace_of :: "env \<Rightarrow> trace" where
  "trace_of env = snd (run env)"

definition calls :: "env \<Rightarrow> call list" where
  "calls env = map fst (trace_of env)"

definition exit_status :: "env \<Rightarrow> nat" where
  \<comment> \<open>\<open>asyncio.run(run())\<close> at the top level: an exception that leaves \<open>run\<close> ends the
      interpreter with status 1, a normal return with status 0\<close>
  "exit_status env = (case result env of Inl _ \<Rightarrow> 1 | Inr _ \<Rightarrow> 0)"

section \<open>Observations on a run\<close>

fun is_raise :: "response \<Rightarrow> bool" where
  "is_raise (Raise e) = True"
| "is_raise (Value v) = False"

definition raised :: "trace \<Rightarrow> call list" where
  \<comment> \<open>the calls that raised, in order\<close>
  "raised tr = map fst (filter (\<lambda>(c, r). is_raise r) tr)"

fun is_screenshot :: "call \<Rightarrow> bool" where
  "is_screenshot (Screenshot p fp) = True"
| "is_screenshot _ = False"

fun is_pause :: "call \<Rightarrow> bool" where
  "is_pause (WaitForTimeout ms) = True"
| "is_pause _ = False"


fun is_login_step :: "call \<Rightarrow> bool" where
  \<comment> \<open>a fill, a click, or the wait for the marker of a finished login\<close>
  "is_login_step (Fill s v) = True"
| "is_login_step (Click h) = True"
| "is_login_step (WaitForSelector m t) = (m = auth_marker)"
| "is_login_step _ = False"

fun written :: "call \<times> response \<Rightarrow> string list" where
  \<comment> \<open>the only call of the script that writes a file is a screenshot that returns\<close>
  "written (Screenshot p fp, Value v) = [p]"
| "written _ = []"

definition files_written :: "trace \<Rightarrow> string list" where
  "files_written tr = concat (map written tr)"

definition after_probe :: "call list \<Rightarrow> call list" where
  \<comment> \<open>the calls issued after the probe for the login button\<close>
  "after_probe cs = tl (dropWhile (\<lambda>c. c \<noteq> QuerySelector login_button) cs)"

fun until_raise :: "call list \<Rightarrow> call list \<Rightarrow> call list" where
  \<comment> \<open>the part of a list of statements that runs when the calls \<open>rs\<close> raise: every
      statement in order, up to and including the first one that raises\<close>
  "until_raise rs [] = []"
| "until_raise rs (c # cs) = (if c \<in> set rs then [c] else c # until_raise rs cs)"

fun prev_call :: "call \<Rightarrow> call list \<Rightarrow> call option" where
  \<comment> \<open>the call issued directly before the first \<open>c\<close>\<close>
  "prev_call c (x # y # ys) = (if y = c then Some x else prev_call c (y # ys))"
| "prev_call c _ = None"

definition login_steps :: "handle \<Rightarrow> call list" where
  "login_steps h =
     [Fill admin_id_input ''admin1'', Fill password_input ''password123'', Click h,
      WaitForSelector auth_marker 10000]"

definition closing_steps :: "call list" where
  "closing_steps = [WaitForTimeout 2000, Screenshot screenshot_path None, Close]"

fun found :: "call \<times> response \<Rightarrow> bool" where
  \<comment> \<open>a probe that returned a handle\<close>
  "found (QuerySelector s, Value (Some h)) = True"
| "found _ = False"

definition login_present :: "trace \<Rightarrow> bool" where
  \<comment> \<open>the run took the branch \<open>if login_btn:\<close>\<close>
  "login_present tr = list_ex found tr"

definition full_page_default :: bool where
  \<comment> \<open>the library's documented default of the keyword \<open>full_page\<close> of
      \<open>Page.screenshot\<close>: the visible viewport only\<close>
  "full_page_default = False"

fun captures_full_page :: "call \<Rightarrow> bool" where
  \<comment> \<open>a capture of the whole scrollable page: the keyword given as true, or left out
      under a default of true\<close>
  "captures_full_page (Screenshot p fp) =
     (case fp of None \<Rightarrow> full_page_default | Some b \<Rightarrow> b)"
| "captures_full_page _ = False"



fun replay :: "env \<Rightarrow> call list \<Rightarrow> trace \<Rightarrow> bool" where
  \<comment> \<open>the outcomes of a trace are the answers of the environment, each to its call after
      the calls before it (\<open>hist\<close> is what was issued before the trace)\<close>
  "replay env hist [] = True"
| "replay env hist ((c, r) # tr) = (r = env hist c \<and> replay env (hist @ [c]) tr)"

definition leave :: "response \<Rightarrow> error + handle option \<Rightarrow> error + handle option" where
  \<comment> \<open>what leaves the \<open>async with\<close>, given the outcome \<open>r\<close> of its exit and the
      outcome of its block\<close>
  "leave r res = (case r of Raise e \<Rightarrow> Inl e | Value _ \<Rightarrow> res)"

subsection \<open>The paths of a run\<close>

text \<open>
  The script has one branch and no loop, so a run follows one of finitely many paths:
  entering the scope raises; or one of the statements of the block raises and the scope is
  left; or every statement returns. The probe decides between the path without the login
  statements (\<open>absent\<close>) and the one with them (\<open>present\<close>).
\<close>

inductive run_path :: "(error + handle option) \<times> trace \<Rightarrow> bool" where
  start_raises:
    "run_path (Inl e, [(PlaywrightStart, Raise e)])"
| launch_raises:
    "run_path (leave r (Inl e),
        [(PlaywrightStart, Value v0), (Launch True, Raise e), (PlaywrightStop, r)])"
| new_page_raises:
    "run_path (leave r (Inl e),
        [(PlaywrightStart, Value v0), (Launch True, Value v1), (NewPage, Raise e),
         (PlaywrightStop, r)])"
| goto_raises:
    "run_path (leave r (Inl e),
        [(PlaywrightStart, Value v0), (Launch True, Value v1), (NewPage, Value v2),
         (Goto url, Raise e), (PlaywrightStop, r)])"
| dashboard_wait_raises:
    "run_path (leave r (Inl e),
        [(PlaywrightStart, Value v0), (Launch True, Value v1), (NewPage, Value v2),
         (Goto url, Value v3), (WaitForSelector dashboard_marker 10000, Raise e),
         (PlaywrightStop, r)])"
| probe_raises:
    "run_path (leave r (Inl e),
        [(PlaywrightStart, Value v0), (Launch True, Value v1), (NewPage, Value v2),
         (Goto url, Value v3), (WaitForSelector dashboard_marker 10000, Value v4),
         (QuerySelector login_button, Raise e), (PlaywrightStop, r)])"
| absent_pause_raises:
    "run_path (leave r (Inl e),
        [(PlaywrightStart, Value v0), (Launch True, Value v1), (NewPage, Value v2),
         (Goto url, Value v3), (WaitForSelector dashboard_marker 10000, Value v4),
         (QuerySelector login_button, Value None), (WaitForTimeout 2000, Raise e),
         (PlaywrightStop, r)])"
| absent_screenshot_raises:
    "run_path (leave r (Inl e),
        [(PlaywrightStart, Value v0), (Launch True, Value v1), (NewPage, Value v2),
         (Goto url, Value v3), (WaitForSelector dashboard_marker 10000, Value v4),
         (QuerySelector login_button, Value None), (WaitForTimeout 2000, Value v6),
         (Screenshot screenshot_path None, Raise e), (PlaywrightStop, r)])"
| absent_close_raises:
    "run_path (leave r (Inl e),
        [(PlaywrightStart, Value v0), (Launch True, Value v1), (NewPage, Value v2),
         (Goto url, Value v3), (WaitForSelector dashboard_marker 10000, Value v4),
         (QuerySelector login_button, Value None), (WaitForTimeout 2000, Value v6),
         (Screenshot screenshot_path None, Value v7), (Close, Raise e), (PlaywrightStop, r)])"
| absent_done:
    "run_path (leave r (Inr None),
        [(PlaywrightStart, Value v0), (Launch True, Value v1), (NewPage, Value v2),
         (Goto url, Value v3), (WaitForSelector dashboard_marker 10000, Value v4),
         (QuerySelector login_button, Value None), (WaitForTimeout 2000, Value v6),
         (Screenshot screenshot_path None, Value v7), (Close, Value v8), (PlaywrightStop, r)])"
| present_fill_id_raises:
    "run_path (leave r (Inl e),
        [(PlaywrightStart, Value v0), (Launch True, Value v1), (NewPage, Value v2),
         (Goto url, Value v3), (WaitForSelector dashboard_marker 10000, Value v4),
         (QuerySelector login_button, Value (Some h)),
         (Fill admin_id_input ''admin1'', Raise e), (PlaywrightStop, r)])"
| present_fill_password_raises:
    "run_path (leave r (Inl e),
        [(PlaywrightStart, Value v0), (Launch True, Value v1), (NewPage, Value v2),
         (Goto url, Value v3), (WaitForSelector dashboard_marker 10000, Value v4),
         (QuerySelector login_button, Value (Some h)),
         (Fill admin_id_input ''admin1'', Value v6),
         (Fill password_input ''password123'', Raise e), (PlaywrightStop, r)])"
| present_click_raises:
    "run_path (leave r (Inl e),
        [(PlaywrightStart, Value v0), (Launch True, Value v1), (NewPage, Value v2),
         (Goto url, Value v3), (WaitForSelector dashboard_marker 10000, Value v4),
         (QuerySelector login_button, Value (Some h)),
         (Fill admin_id_input ''admin1'', Value v6),
         (Fill password_input ''password123'', Value v7), (Click h, Raise e),
         (PlaywrightStop, r)])"
| present_auth_wait_raises:
    "run_path (leave r (Inl e),
        [(PlaywrightStart, Value v0), (Launch True, Value v1), (NewPage, Value v2),
         (Goto url, Value v3), (WaitForSelector dashboard_marker 10000, Value v4),
         (QuerySelector login_button, Value (Some h)),
         (Fill admin_id_input ''admin1'', Value v6),
         (Fill password_input ''password123'', Value v7), (Click h, Value v8),
         (WaitForSelector auth_marker 10000, Raise e), (PlaywrightStop, r)])"
| present_pause_raises:
    "run_path (leave r (Inl e),
        [(PlaywrightStart, Value v0), (Launch True, Value v1), (NewPage, Value v2),
         (Goto url, Value v3), (WaitForSelector dashboard_marker 10000, Value v4),
         (QuerySelector login_button, Value (Some h)),
         (Fill admin_id_input ''admin1'', Value v6),
         (Fill password_input ''password123'', Value v7), (Click h, Value v8),
         (WaitForSelector auth_marker 10000, Value v9), (WaitForTimeout 2000, Raise e),
         (PlaywrightStop, r)])"
| present_screenshot_raises:
    "run_path (leave r (Inl e),
        [(PlaywrightStart, Value v0), (Launch True, Value v1), (NewPage, Value v2),
         (Goto url, Value v3), (WaitForSelector dashboard_marker 10000, Value v4),
         (QuerySelector login_button, Value (Some h)),
         (Fill admin_id_input ''admin1'', Value v6),
         (Fill password_input ''password123'', Value v7), (Click h, Value v8),
         (WaitForSelector auth_marker 10000, Value v9), (WaitForTimeout 2000, Value v10),
         (Screenshot screenshot_path None, Raise e), (PlaywrightStop, r)])"
| present_close_raises:
    "run_path (leave r (Inl e),
        [(PlaywrightStart, Value v0), (Launch True, Value v1), (NewPage, Value v2),
         (Goto url, Value v3), (WaitForSelector dashboard_marker 10000, Value v4),
         (QuerySelector login_button, Value (Some h)),
         (Fill admin_id_input ''admin1'', Value v6),
         (Fill password_input ''password123'', Value v7), (Click h, Value v8),
         (WaitForSelector auth_marker 10000, Value v9), (WaitForTimeout 2000, Value v10),
         (Screenshot screenshot_path None, Value v11), (Close, Raise e), (PlaywrightStop, r)])"
| present_done:
    "run_path (leave r (Inr None),
        [(PlaywrightStart, Value v0), (Launch True, Value v1), (NewPage, Value v2),
         (Goto url, Value v3), (WaitForSelector dashboard_marker 10000, Value v4),
         (QuerySelector login_button, Value (Some h)),
         (Fill admin_id_input ''admin1'', Value v6),
         (Fill password_input ''password123'', Value v7), (Click h, Value v8),
         (WaitForSelector auth_marker 10000, Value v9), (WaitForTimeout 2000, Value v10),
         (Screenshot screenshot_path None, Value v11), (Close, Value v12),
         (PlaywrightStop, r)])"

subsection \<open>Environments\<close>

definition env_plain :: env where
  \<comment> \<open>a dashboard without a login button; every call returns\<close>
  "env_plain hist c = Value None"

definition env_login :: env where
  \<comment> \<open>a dashboard with a login button (handle 1); every call returns\<close>
  "env_login hist c = (case c of QuerySelector s \<Rightarrow> Value (Some 1) | _ \<Rightarrow> Value None)"

definition env_refused :: env where
  \<comment> \<open>nothing listens on the port: the navigation raises\<close>
  "env_refused hist c =
     (case c of Goto u \<Rightarrow> Raise (Error ''net::ERR_CONNECTION_REFUSED'') | _ \<Rightarrow> Value None)"

definition env_no_dashboard :: env where
  \<comment> \<open>a page that never shows a marker: every wait for a selector times out\<close>
  "env_no_dashboard hist c =
     (case c of WaitForSelector m t \<Rightarrow> Raise TimeoutError | _ \<Rightarrow> Value None)"

definition env_login_stuck :: env where
  \<comment> \<open>a login button, but the login never completes: the second marker never shows\<close>
  "env_login_stuck hist c =
     (case c of
        QuerySelector s \<Rightarrow> Value (Some 1)
      | WaitForSelector m t \<Rightarrow> (if m = auth_marker then Raise TimeoutError else Value None)
      | _ \<Rightarrow> Value None)"


definition env_driver_gone :: env where
  \<comment> \<open>a page that never shows a marker, and a driver that is gone when the scope is left\<close>
  "env_driver_gone hist c =
     (case c of
        WaitForSelector m t \<Rightarrow> Raise TimeoutError
      | PlaywrightStop \<Rightarrow> Raise (Error ''driver gone'')
      | _ \<Rightarrow> Value None)"

definition env_capture_fails :: env where
  \<comment> \<open>a dashboard without a login button, and an output path that cannot be written\<close>
  "env_capture_fails hist c =
     (case c of Screenshot p fp \<Rightarrow> Raise (Error ''ENOENT'') | _ \<Rightarrow> Value None)"

section \<open>Every run follows one of the paths\<close>

lemma seq_await:
  "seq (await c) f env tr =
     (case env (map fst tr) c of
        Raise e \<Rightarrow> (Inl e, tr @ [(c, Raise e)])
      | Value v \<Rightarrow> f v env (tr @ [(c, Value v)]))"
  by (simp add: seq_def await_def split: response.splits)

lemma seq_skip: "seq skip f env tr = f None env tr"
  by (simp add: seq_def skip_def)

lemma seq_assoc: "seq (seq m g) f = seq m (\<lambda>v. seq (g v) f)"
  by (rule ext, rule ext) (simp add: seq_def split: prod.splits sum.splits)

lemma run_unfold:
  "run env =
     (case env [] PlaywrightStart of
        Raise e \<Rightarrow> (Inl e, [(PlaywrightStart, Raise e)])
      | Value v0 \<Rightarrow>
          (case block env [(PlaywrightStart, Value v0)] of
             (res, tr2) \<Rightarrow>
               (leave (env (map fst tr2) PlaywrightStop)
                  (case res of Inl e \<Rightarrow> Inl e | Inr _ \<Rightarrow> Inr None),
                tr2 @ [(PlaywrightStop, env (map fst tr2) PlaywrightStop)])))"
  by (simp add: run_def async_with_def seq_def await_def skip_def leave_def
      split: response.splits prod.splits sum.splits)

lemmas run_simps =
  run_unfold block_def login_if_needed_def seq_assoc seq_skip seq_await await_def

lemma run_reachable: "run_path (run env)"
  by (simp add: run_simps run_path.intros split: response.splits option.splits)

lemma run_replay: "replay env [] (trace_of env)"
  by (simp add: trace_of_def run_simps split: response.splits option.splits)

lemma replay_answer: "replay env hist tr \<Longrightarrow> (c, r) \<in> set tr \<Longrightarrow> \<exists>h. r = env h c"
  by (induction tr arbitrary: hist) auto

lemma raised_iff: "c \<in> set (raised tr) \<longleftrightarrow> (\<exists>e. (c, Raise e) \<in> set tr)"
proof
  assume "c \<in> set (raised tr)"
  then obtain r where "(c, r) \<in> set tr" and "is_raise r"
    by (auto simp: raised_def)
  then show "\<exists>e. (c, Raise e) \<in> set tr"
    by (cases r) auto
next
  assume "\<exists>e. (c, Raise e) \<in> set tr"
  then show "c \<in> set (raised tr)"
    by (force simp: raised_def)
qed

lemma never_raises_not_raised:
  assumes "\<forall>hist. \<not> is_raise (env hist c)"
  shows "c \<notin> set (raised (trace_of env))"
proof
  assume "c \<in> set (raised (trace_of env))"
  then obtain e where "(c, Raise e) \<in> set (trace_of env)"
    by (auto simp: raised_iff)
  with run_replay[of env] obtain h where "Raise e = env h c"
    by (blast dest: replay_answer)
  with assms show False
    by (metis is_raise.simps(1))
qed

lemma leave_Raise [simp]: "leave (Raise e) res = Inl e"
  by (simp add: leave_def)

lemma leave_Value [simp]: "leave (Value v) res = res"
  by (simp add: leave_def)

lemma isl_leave_Inl [simp]: "isl (leave r (Inl e))"
  by (cases r) simp_all

lemma case_leave_Inl [simp]: "(case leave r (Inl e) of Inl x \<Rightarrow> a | Inr y \<Rightarrow> b) = a"
  by (cases r) simp_all

lemma leave_Inl_neq_Inr [simp]: "leave r (Inl e) \<noteq> Inr v"
  by (cases r) simp_all

lemma leave_Inr_eq_Inr [simp]: "(leave r (Inr x) = Inr v) = (\<not> is_raise r \<and> x = v)"
  by (cases r) simp_all

lemma leave_returned [simp]: "\<not> is_raise r \<Longrightarrow> leave r res = res"
  by (cases r) simp_all

lemma case_leave_Inr [simp]:
  "(case leave r (Inr x) of Inl y \<Rightarrow> a | Inr z \<Rightarrow> b) = (if is_raise r then a else b)"
  by (cases r) simp_all

lemma screenshot_path_literal:
  "screenshot_path =
     ''C:'' @ [CHR 0x5C] @ ''Users'' @ [CHR 0x5C] @ ''Sazid'' @ [CHR 0x5C] @ ''.gemini''
     @ [CHR 0x5C] @ ''antigravity'' @ [CHR 0x5C] @ ''brain''
     @ [CHR 0x5C] @ ''41001d6e-5fca-4311-9d29-e0a7cb00349e''
     @ [CHR 0x5C] @ ''manual_screenshot.png''"
  by (simp add: screenshot_path_def backslash_def)

lemma marker_distinct [simp]:
  "dashboard_marker \<noteq> auth_marker" "auth_marker \<noteq> dashboard_marker"
  by (simp_all add: dashboard_marker_def auth_marker_def)

lemma input_distinct [simp]:
  "admin_id_input \<noteq> password_input" "password_input \<noteq> admin_id_input"
  by (simp_all add: admin_id_input_def password_input_def)

lemmas obs_defs =
  result_def trace_of_def calls_def raised_def files_written_def exit_status_def

subsection \<open>The runs in the environments\<close>

lemma run_env_plain:
  "run env_plain =
     (Inr None,
      [(PlaywrightStart, Value None), (Launch True, Value None), (NewPage, Value None),
       (Goto url, Value None), (WaitForSelector dashboard_marker 10000, Value None),
       (QuerySelector login_button, Value None), (WaitForTimeout 2000, Value None),
       (Screenshot screenshot_path None, Value None), (Close, Value None),
       (PlaywrightStop, Value None)])"
  by (simp add: run_simps env_plain_def)

lemma run_env_login:
  "run env_login =
     (Inr None,
      [(PlaywrightStart, Value None), (Launch True, Value None), (NewPage, Value None),
       (Goto url, Value None), (WaitForSelector dashboard_marker 10000, Value None),
       (QuerySelector login_button, Value (Some 1)),
       (Fill admin_id_input ''admin1'', Value None),
       (Fill password_input ''password123'', Value None), (Click 1, Value None),
       (WaitForSelector auth_marker 10000, Value None), (WaitForTimeout 2000, Value None),
       (Screenshot screenshot_path None, Value None), (Close, Value None),
       (PlaywrightStop, Value None)])"
  by (simp add: run_simps env_login_def)

lemma run_env_refused:
  "run env_refused =
     (Inl (Error ''net::ERR_CONNECTION_REFUSED''),
      [(PlaywrightStart, Value None), (Launch True, Value None), (NewPage, Value None),
       (Goto url, Raise (Error ''net::ERR_CONNECTION_REFUSED'')),
       (PlaywrightStop, Value None)])"
  by (simp add: run_simps env_refused_def)

lemma run_env_no_dashboard:
  "run env_no_dashboard =
     (Inl TimeoutError,
      [(PlaywrightStart, Value None), (Launch True, Value None), (NewPage, Value None),
       (Goto url, Value None), (WaitForSelector dashboard_marker 10000, Raise TimeoutError),
       (PlaywrightStop, Value None)])"
  by (simp add: run_simps env_no_dashboard_def)

lemma run_env_login_stuck:
  "run env_login_stuck =
     (Inl TimeoutError,
      [(PlaywrightStart, Value None), (Launch True, Value None), (NewPage, Value None),
       (Goto url, Value None), (WaitForSelector dashboard_marker 10000, Value None),
       (QuerySelector login_button, Value (Some 1)),
       (Fill admin_id_input ''admin1'', Value None),
       (Fill password_input ''password123'', Value None), (Click 1, Value None),
       (WaitForSelector auth_marker 10000, Raise TimeoutError),
       (PlaywrightStop, Value None)])"
  by (simp add: run_simps env_login_stuck_def)


lemma run_env_driver_gone:
  "run env_driver_gone =
     (Inl (Error ''driver gone''),
      [(PlaywrightStart, Value None), (Launch True, Value None), (NewPage, Value None),
       (Goto url, Value None), (WaitForSelector dashboard_marker 10000, Raise TimeoutError),
       (PlaywrightStop, Raise (Error ''driver gone''))])"
  by (simp add: run_simps env_driver_gone_def)

lemma run_env_capture_fails:
  "run env_capture_fails =
     (Inl (Error ''ENOENT''),
      [(PlaywrightStart, Value None), (Launch True, Value None), (NewPage, Value None),
       (Goto url, Value None), (WaitForSelector dashboard_marker 10000, Value None),
       (QuerySelector login_button, Value None), (WaitForTimeout 2000, Value None),
       (Screenshot screenshot_path None, Raise (Error ''ENOENT'')),
       (PlaywrightStop, Value None)])"
  by (simp add: run_simps env_capture_fails_def)

section \<open>The release of the browser\<close>

text \<open>
  C1, as amended. The scope that the script opens is the one of \<open>async_playwright()\<close>,
  and \<open>browser.close()\<close> is the last statement of its block, outside any
  \<open>finally\<close>. So in every run in which the launch returns, the scope is left exactly
  once, as the last call of the run, on every exit path; \<open>browser.close()\<close> is called
  exactly once when no statement before it raises, and is not called at all when one does.
\<close>

theorem scope_left_once:
  assumes "(Launch True, Value v) \<in> set (trace_of env)"
  shows "count_list (calls env) PlaywrightStop = 1
    \<and> last (calls env) = PlaywrightStop
    \<and> count_list (calls env) Close =
          (if set (raised (trace_of env)) \<subseteq> {Close, PlaywrightStop} then 1 else 0)"
  using run_reachable[of env] assms
  by (cases rule: run_path.cases) (simp_all add: obs_defs)

theorem scope_left_once_witness:
  "(Launch True, Value None) \<in> set (trace_of env_plain)
   \<and> count_list (calls env_plain) PlaywrightStop = 1
   \<and> last (calls env_plain) = PlaywrightStop
   \<and> raised (trace_of env_plain) = []
   \<and> count_list (calls env_plain) Close = 1"
  using scope_left_once[of None env_plain]
  by (simp add: run_env_plain obs_defs)

text \<open>
  C1 as it is stated asks for exactly one close on every exit path after a launch. When the
  navigation is refused, the launch has returned and the run ends without any call of
  \<open>browser.close()\<close>: the exception leaves the block before that statement.
\<close>

theorem close_skipped_on_failure:
  "(Launch True, Value None) \<in> set (trace_of env_refused)
   \<and> isl (result env_refused)
   \<and> calls env_refused = [PlaywrightStart, Launch True, NewPage, Goto url, PlaywrightStop]
   \<and> count_list (calls env_refused) Close = 0"
  by (simp add: run_env_refused obs_defs)

section \<open>The capture\<close>

text \<open>
  C2, as amended. In every successful run the script issues exactly one capture call, after
  which only the close and the exit of the scope follow; the call returns, names the fixed
  configured path and leaves the keyword \<open>full_page\<close> out. No call of the run asks
  for the whole scrollable page: the image is the library's default capture, the visible
  viewport.
\<close>

theorem capture_call:
  assumes "result env = Inr v"
  shows "filter is_screenshot (calls env) = [Screenshot screenshot_path None]
    \<and> Screenshot screenshot_path None \<notin> set (raised (trace_of env))
    \<and> dropWhile (\<lambda>c. \<not> is_screenshot c) (calls env) =
          [Screenshot screenshot_path None, Close, PlaywrightStop]
    \<and> filter captures_full_page (calls env) = []"
  using run_reachable[of env] assms
  by (cases rule: run_path.cases) (simp_all add: obs_defs full_page_default_def)

theorem capture_call_witness:
  "result env_login = Inr None
   \<and> filter is_screenshot (calls env_login) = [Screenshot screenshot_path None]
   \<and> raised (trace_of env_login) = []
   \<and> filter captures_full_page (calls env_login) = []"
  using capture_call[of env_login None]
  by (simp add: run_env_login obs_defs)

text \<open>
  C2 as it is stated asks for a capture of the entire scrollable page. The run against the
  dashboard without a login button succeeds, and its one capture call is
  \<open>page.screenshot(path=...)\<close> with no \<open>full_page\<close>: not a full-page capture.
\<close>

theorem capture_not_full_page:
  "result env_plain = Inr None
   \<and> filter is_screenshot (calls env_plain) = [Screenshot screenshot_path None]
   \<and> captures_full_page (Screenshot screenshot_path None) = False
   \<and> filter captures_full_page (calls env_plain) = []"
  by (simp add: run_env_plain obs_defs full_page_default_def)

section \<open>Marker waits that time out\<close>

text \<open>
  C3, as amended. The script waits for two markers, the one of the loaded dashboard and, in
  the login branch, the one of a finished login, each with a timeout of 10000 ms. When such
  a wait raises a timeout, the run fails and the process ends with status 1; the wait was
  issued once and nothing but the exit of the scope follows it, so it is not retried; and
  the run issues no capture call and writes no file. The exit of the scope still runs: when
  it returns, the exception that ends the run is the timeout; when it raises, its own
  exception ends the run in place of the timeout.
\<close>

theorem marker_timeout:
  assumes "(WaitForSelector m t, Raise TimeoutError) \<in> set (trace_of env)"
  shows "isl (result env)
    \<and> (PlaywrightStop \<notin> set (raised (trace_of env)) \<longrightarrow> result env = Inl TimeoutError)
    \<and> ((PlaywrightStop, Raise e) \<in> set (trace_of env) \<longrightarrow> result env = Inl e)
    \<and> result env = leave (snd (last (trace_of env))) (Inl TimeoutError)
    \<and> exit_status env = 1
    \<and> t = 10000 \<and> (m = dashboard_marker \<or> m = auth_marker)
    \<and> count_list (calls env) (WaitForSelector m t) = 1
    \<and> dropWhile (\<lambda>x. x \<noteq> WaitForSelector m t) (calls env) =
          [WaitForSelector m t, PlaywrightStop]
    \<and> filter is_screenshot (calls env) = []
    \<and> files_written (trace_of env) = []"
  using run_reachable[of env] assms
  by (cases rule: run_path.cases) (simp_all add: obs_defs, auto)

theorem marker_timeout_witness:
  "(WaitForSelector dashboard_marker 10000, Raise TimeoutError)
     \<in> set (trace_of env_no_dashboard)
   \<and> raised (trace_of env_no_dashboard) = [WaitForSelector dashboard_marker 10000]
   \<and> result env_no_dashboard = Inl TimeoutError
   \<and> exit_status env_no_dashboard = 1
   \<and> files_written (trace_of env_no_dashboard) = []
   \<and> (WaitForSelector auth_marker 10000, Raise TimeoutError)
     \<in> set (trace_of env_login_stuck)
   \<and> raised (trace_of env_login_stuck) = [WaitForSelector auth_marker 10000]
   \<and> result env_login_stuck = Inl TimeoutError
   \<and> exit_status env_login_stuck = 1
   \<and> files_written (trace_of env_login_stuck) = []"
  using marker_timeout[of dashboard_marker 10000 env_no_dashboard]
    marker_timeout[of auth_marker 10000 env_login_stuck]
  by (simp add: run_env_no_dashboard run_env_login_stuck obs_defs)

text \<open>
  C3 as it is stated says that the run fails with a timeout error. When the wait for the
  dashboard marker times out and leaving the scope raises as well, the exception that ends
  the run is the one of the exit, not the timeout.
\<close>

theorem timeout_replaced_by_exit_error:
  "(WaitForSelector dashboard_marker 10000, Raise TimeoutError)
     \<in> set (trace_of env_driver_gone)
   \<and> (PlaywrightStop, Raise (Error ''driver gone'')) \<in> set (trace_of env_driver_gone)
   \<and> result env_driver_gone = Inl (Error ''driver gone'')
   \<and> result env_driver_gone \<noteq> Inl TimeoutError"
  by (simp add: run_env_driver_gone obs_defs)

section \<open>The login branch\<close>

text \<open>
  C4. When the probe returns a handle \<open>h\<close>, the calls after the probe are, in this
  order: the fill of the input with placeholder Admin ID with admin1, the fill of the input
  with placeholder Password with password123, the click on \<open>h\<close> itself, the wait for
  the marker Total Requests with a timeout of 10000 ms, and then the pause, the capture and
  the close; the run goes through them up to and including the first call that raises, and
  then leaves the scope. So when no login step raises, the four steps follow the probe
  directly and in that order; and when the wait for the marker raises, the run fails without
  reaching the pause.
\<close>

theorem login_sequence:
  assumes "(QuerySelector login_button, Value (Some h)) \<in> set (trace_of env)"
  shows "butlast (after_probe (calls env)) =
           until_raise (raised (trace_of env)) (login_steps h @ closing_steps)
    \<and> last (calls env) = PlaywrightStop
    \<and> (list_all (\<lambda>c. c \<notin> set (raised (trace_of env))) (login_steps h)
         \<longrightarrow> take 4 (after_probe (calls env)) = login_steps h)
    \<and> (WaitForSelector auth_marker 10000 \<in> set (raised (trace_of env))
         \<longrightarrow> isl (result env) \<and> filter is_pause (calls env) = [])"
  using run_reachable[of env] assms
  by (cases rule: run_path.cases)
    (simp_all add: obs_defs after_probe_def closing_steps_def login_steps_def)

theorem login_sequence_witness:
  "(QuerySelector login_button, Value (Some 1)) \<in> set (trace_of env_login)
   \<and> raised (trace_of env_login) = []
   \<and> after_probe (calls env_login) =
        [Fill admin_id_input ''admin1'', Fill password_input ''password123'', Click 1,
         WaitForSelector auth_marker 10000, WaitForTimeout 2000,
         Screenshot screenshot_path None, Close, PlaywrightStop]
   \<and> (QuerySelector login_button, Value (Some 1)) \<in> set (trace_of env_login_stuck)
   \<and> raised (trace_of env_login_stuck) = [WaitForSelector auth_marker 10000]
   \<and> after_probe (calls env_login_stuck) =
        [Fill admin_id_input ''admin1'', Fill password_input ''password123'', Click 1,
         WaitForSelector auth_marker 10000, PlaywrightStop]
   \<and> isl (result env_login_stuck)"
  using login_sequence[of 1 env_login] login_sequence[of 1 env_login_stuck]
  by (simp add: run_env_login run_env_login_stuck obs_defs after_probe_def closing_steps_def
      login_steps_def)

section \<open>The branch without a login\<close>

text \<open>
  C5, as amended. Take a run in which the probe returns \<open>None\<close> (the page has no login
  control; the probe is reached only after the wait for the dashboard marker has returned),
  against a library whose pause, capture, close and exit of the scope do not raise. Then no
  call of the run raises, the run completes without an exception, the process ends with
  status 0, the calls are exactly the ten of the plain path, and one file is written, at
  the configured path.
\<close>

theorem plain_dashboard_run:
  assumes "(QuerySelector login_button, Value None) \<in> set (trace_of env)"
    and "\<forall>hist. list_all (\<lambda>c. \<not> is_raise (env hist c)) (closing_steps @ [PlaywrightStop])"
  shows "result env = Inr None
    \<and> exit_status env = 0
    \<and> raised (trace_of env) = []
    \<and> calls env =
         [PlaywrightStart, Launch True, NewPage, Goto url,
          WaitForSelector dashboard_marker 10000, QuerySelector login_button,
          WaitForTimeout 2000, Screenshot screenshot_path None, Close, PlaywrightStop]
    \<and> files_written (trace_of env) = [screenshot_path]"
proof -
  have "WaitForTimeout 2000 \<notin> set (raised (trace_of env))"
    and "Screenshot screenshot_path None \<notin> set (raised (trace_of env))"
    and "Close \<notin> set (raised (trace_of env))"
    and "PlaywrightStop \<notin> set (raised (trace_of env))"
    using assms(2) by (simp_all add: never_raises_not_raised closing_steps_def)
  with run_reachable[of env] assms(1) show ?thesis
    by (cases rule: run_path.cases) (simp_all add: obs_defs split: if_splits)
qed

theorem plain_dashboard_run_witness:
  "(QuerySelector login_button, Value None) \<in> set (trace_of env_plain)
   \<and> (\<forall>hist. list_all (\<lambda>c. \<not> is_raise (env_plain hist c)) (closing_steps @ [PlaywrightStop]))
   \<and> result env_plain = Inr None
   \<and> exit_status env_plain = 0
   \<and> files_written (trace_of env_plain) = [screenshot_path]"
  using plain_dashboard_run[of env_plain]
  by (simp add: run_env_plain obs_defs env_plain_def closing_steps_def)

text \<open>
  C5 as it is stated promises a run without error and a screenshot file for every run
  against a page that shows the marker and has no login control. Against such a page, with
  an output path that cannot be written, the wait for the marker returns, the probe returns
  \<open>None\<close>, the capture raises, and the run ends with status 1 and no file.
\<close>

theorem capture_failure_on_plain_dashboard:
  "(WaitForSelector dashboard_marker 10000, Value None) \<in> set (trace_of env_capture_fails)
   \<and> (QuerySelector login_button, Value None) \<in> set (trace_of env_capture_fails)
   \<and> result env_capture_fails = Inl (Error ''ENOENT'')
   \<and> exit_status env_capture_fails = 1
   \<and> files_written (trace_of env_capture_fails) = []"
  by (simp add: run_env_capture_fails obs_defs)

text \<open>
  C6. The probe is a single call whose result is only tested: when it returns
  \<open>None\<close>, that is no failure, the run issues no fill, no click and no wait for the
  login marker, and the call directly after the probe is the pause, followed by the capture
  and the close (up to the first of them that raises) and the exit of the scope.
\<close>

theorem probe_absent:
  assumes "(QuerySelector login_button, Value None) \<in> set (trace_of env)"
  shows "count_list (calls env) (QuerySelector login_button) = 1
    \<and> filter is_login_step (calls env) = []
    \<and> hd (after_probe (calls env)) = WaitForTimeout 2000
    \<and> butlast (after_probe (calls env)) = until_raise (raised (trace_of env)) closing_steps
    \<and> last (calls env) = PlaywrightStop"
  using run_reachable[of env] assms
  by (cases rule: run_path.cases) (simp_all add: obs_defs after_probe_def closing_steps_def)

theorem probe_absent_witness:
  "(QuerySelector login_button, Value None) \<in> set (trace_of env_plain)
   \<and> count_list (calls env_plain) (QuerySelector login_button) = 1
   \<and> filter is_login_step (calls env_plain) = []
   \<and> after_probe (calls env_plain) =
        [WaitForTimeout 2000, Screenshot screenshot_path None, Close, PlaywrightStop]"
  using probe_absent[of env_plain]
  by (simp add: run_env_plain obs_defs after_probe_def closing_steps_def)

section \<open>The pause before the capture\<close>

text \<open>
  C7. In every run that issues the capture call, the call directly before it is the pause
  of 2000 ms; it is the only pause of the run and it returned; and the call directly before
  the pause is the end of the conditional branch: the wait for the login marker when the
  login branch was taken, the probe when it was not. The pause has no condition: its only
  argument is the duration, and whatever value it returns, the capture is issued. (The
  model has no clock: the duration is the argument of the call.)
\<close>

theorem pause_before_capture:
  "(Screenshot p fp \<in> set (calls env) \<longrightarrow>
      prev_call (Screenshot p fp) (calls env) = Some (WaitForTimeout 2000)
      \<and> filter is_pause (calls env) = [WaitForTimeout 2000]
      \<and> WaitForTimeout 2000 \<notin> set (raised (trace_of env))
      \<and> prev_call (WaitForTimeout 2000) (calls env) =
            Some (if login_present (trace_of env) then WaitForSelector auth_marker 10000
                  else QuerySelector login_button))
   \<and> ((WaitForTimeout 2000, Value v) \<in> set (trace_of env) \<longrightarrow>
        Screenshot screenshot_path None \<in> set (calls env))"
  using run_reachable[of env]
  by (cases rule: run_path.cases) (simp_all add: obs_defs login_present_def)

theorem pause_before_capture_witness:
  "Screenshot screenshot_path None \<in> set (calls env_plain)
   \<and> prev_call (Screenshot screenshot_path None) (calls env_plain) = Some (WaitForTimeout 2000)
   \<and> prev_call (WaitForTimeout 2000) (calls env_plain) = Some (QuerySelector login_button)
   \<and> Screenshot screenshot_path None \<in> set (calls env_login)
   \<and> prev_call (Screenshot screenshot_path None) (calls env_login) = Some (WaitForTimeout 2000)
   \<and> prev_call (WaitForTimeout 2000) (calls env_login)
        = Some (WaitForSelector auth_marker 10000)
   \<and> (WaitForTimeout 2000, Value None) \<in> set (trace_of env_login)"
  using pause_before_capture[of screenshot_path None env_plain None]
    pause_before_capture[of screenshot_path None env_login None]
  by (simp add: run_env_plain run_env_login obs_defs login_present_def)

section \<open>Failures\<close>

text \<open>
  C8. No failure of a step is caught or retried. When a call of the script raises (entering
  the scope, the launch, the new page, the navigation, a marker wait, the probe, a fill,
  the click, the pause, the capture or the close), the run ends with an exception and the
  process with status 1; the call was issued once; nothing is issued after it except the
  exit of the \<open>async with\<close> scope, which is the script's only release; no other
  call of the block raised; and the exception that ends the run is the one of the failing
  call, unless the exit of the scope raises one of its own, which then takes its place.
\<close>

theorem failure_propagates:
  assumes "(c, Raise e) \<in> set (trace_of env)" and "c \<noteq> PlaywrightStop"
  shows "isl (result env)
    \<and> exit_status env = 1
    \<and> result env = leave (snd (last (trace_of env))) (Inl e)
    \<and> count_list (calls env) c = 1
    \<and> dropWhile (\<lambda>x. x \<noteq> c) (calls env) =
          (if c = PlaywrightStart then [c] else [c, PlaywrightStop])
    \<and> set (raised (trace_of env)) \<subseteq> {c, PlaywrightStop}"
  using run_reachable[of env] assms
  by (cases rule: run_path.cases) (simp_all add: obs_defs)

theorem failure_propagates_witness:
  "(Goto url, Raise (Error ''net::ERR_CONNECTION_REFUSED'')) \<in> set (trace_of env_refused)
   \<and> Goto url \<noteq> PlaywrightStop
   \<and> result env_refused = Inl (Error ''net::ERR_CONNECTION_REFUSED'')
   \<and> exit_status env_refused = 1
   \<and> count_list (calls env_refused) (Goto url) = 1
   \<and> dropWhile (\<lambda>x. x \<noteq> Goto url) (calls env_refused) = [Goto url, PlaywrightStop]
   \<and> raised (trace_of env_refused) = [Goto url]"
  using failure_propagates[of "Goto url" "Error ''net::ERR_CONNECTION_REFUSED''" env_refused]
  by (simp add: run_env_refused obs_defs)



section \<open>The output file\<close>

text \<open>
  C10. A successful run writes exactly one file, and its path is the literal of the script,
  a path under the home directory of one Windows user. The path is a constant of the
  script: no input and no outcome of a call enters it.
\<close>

theorem single_output_file:
  assumes "result env = Inr v"
  shows "files_written (trace_of env) = [screenshot_path]
    \<and> screenshot_path =
         ''C:'' @ [CHR 0x5C] @ ''Users'' @ [CHR 0x5C] @ ''Sazid'' @ [CHR 0x5C] @ ''.gemini''
         @ [CHR 0x5C] @ ''antigravity'' @ [CHR 0x5C] @ ''brain''
         @ [CHR 0x5C] @ ''41001d6e-5fca-4311-9d29-e0a7cb00349e''
         @ [CHR 0x5C] @ ''manual_screenshot.png''"
proof -
  have "files_written (trace_of env) = [screenshot_path]"
    using run_reachable[of env] assms
    by (cases rule: run_path.cases) (simp_all add: obs_defs)
  then show ?thesis
    using screenshot_path_literal by simp
qed

theorem single_output_file_witness:
  "result env_plain = Inr None
   \<and> files_written (trace_of env_plain) = [screenshot_path]
   \<and> length (files_written (trace_of env_plain)) = 1"
  using single_output_file[of env_plain None]
  by (simp add: run_env_plain obs_defs)

end
